theory Spec2Isabelle
  imports Main
begin

section \<open>Data model\<close>

text \<open>
  The persistent store is the relational database behind the Prisma client. Every table
  is a list of rows in insertion order. Dates are natural numbers (milliseconds since the
  epoch); \<open>new Date()\<close> is the argument \<open>now\<close> of each operation.
\<close>

type_synonym date = nat

text \<open>The application errors of \<open>utils/errors\<close>, and the plain \<open>Error\<close> of the runtime.\<close>

datatype app_error =
    UnauthorizedError string
  | ConflictError string
  | NotFoundError string
  | ForbiddenError string
  | Error string

record Role =
  r_id :: string
  r_name :: string
  r_slug :: string
  r_isSystem :: bool

record Permission =
  p_id :: string
  p_name :: string
  p_slug :: string
  p_resource :: string
  p_action :: string

record RolePermission =
  rp_id :: nat
  rp_roleId :: string
  rp_permissionId :: string

record User =
  u_id :: string
  u_email :: string
  u_password :: string
  u_isActive :: bool
  u_roleId :: string
  u_lastLoginAt :: "date option"
  u_passwordChangedAt :: "date option"

record RefreshToken =
  rt_id :: nat
  rt_token :: string
  rt_userId :: string
  rt_expiresAt :: date
  rt_isRevoked :: bool
  rt_revokedAt :: "date option"
  rt_userAgent :: "string option"
  rt_ipAddress :: "string option"

record prisma =
  users :: "User list"
  roles :: "Role list"
  permissions :: "Permission list"
  rolePermissions :: "RolePermission list"
  refreshTokens :: "RefreshToken list"
  nextId :: nat

text \<open>
  The result of a query with \<^verbatim>\<open>include: { role: { include: { permissions: { include:
  { permission: true } } } } }\<close>: the user row with its role and the permissions joined
  through RolePermission. \<open>uv_password\<close> is \<open>None\<close> once the password property has
  been destructured away (\<^verbatim>\<open>const { password, ...userWithoutPassword } = user\<close>); reading
  the property then gives \<^verbatim>\<open>undefined\<close>.
\<close>

record RoleView =
  rv_role :: Role
  rv_permissions :: "Permission list"

record UserView =
  uv_id :: string
  uv_email :: string
  uv_password :: "string option"
  uv_isActive :: bool
  uv_roleId :: string
  uv_lastLoginAt :: "date option"
  uv_passwordChangedAt :: "date option"
  uv_role :: RoleView

record JWTPayload =
  jp_userId :: string
  jp_email :: string
  jp_roleId :: string

record TokenPair =
  tp_accessToken :: string
  tp_refreshToken :: string

text \<open>
  The \<open>Resource\<close> and \<open>Action\<close> enums of \<open>types/index.ts\<close> with their string values.
\<close>

datatype Resource = USER | ROLE | PERMISSION | DEPARTMENT | LEAVE | PAYROLL | JOB
  | CANDIDATE | APPLICATION | NOTIFICATION | FILE | AUDIT_LOG | SETTING

datatype Action = CREATE | READ | UPDATE | DELETE | APPROVE | REJECT | MANAGE

fun resource_value :: "Resource \<Rightarrow> string" where
  "resource_value USER = ''user''"
| "resource_value ROLE = ''role''"
| "resource_value PERMISSION = ''permission''"
| "resource_value DEPARTMENT = ''department''"
| "resource_value LEAVE = ''leave''"
| "resource_value PAYROLL = ''payroll''"
| "resource_value JOB = ''job''"
| "resource_value CANDIDATE = ''candidate''"
| "resource_value APPLICATION = ''application''"
| "resource_value NOTIFICATION = ''notification''"
| "resource_value FILE = ''file''"
| "resource_value AUDIT_LOG = ''audit_log''"
| "resource_value SETTING = ''setting''"

fun action_value :: "Action \<Rightarrow> string" where
  "action_value CREATE = ''create''"
| "action_value READ = ''read''"
| "action_value UPDATE = ''update''"
| "action_value DELETE = ''delete''"
| "action_value APPROVE = ''approve''"
| "action_value REJECT = ''reject''"
| "action_value MANAGE = ''manage''"

section \<open>External collaborators\<close>

text \<open>
  The configuration (\<open>config/env\<close>) and the libraries the services call are parameters:
  \<^item> \<open>jwt_sign payload secret expiresIn now\<close> is \<^verbatim>\<open>jwt.sign(payload, secret, { expiresIn })\<close>
    at time \<open>now\<close>;
  \<^item> \<open>jwt_decode token secret\<close> is the signature check of \<^verbatim>\<open>jwt.verify\<close>: the claims and
    the embedded expiry (in the unit of \<open>date\<close>) of a token signed with \<open>secret\<close>,
    \<open>None\<close> for any other string;
  \<^item> \<open>argon2_hash plain salt\<close> is \<^verbatim>\<open>argon2.hash(plain)\<close>, the fresh salt made explicit;
  \<^item> \<open>argon2_verify digest plain\<close> is \<^verbatim>\<open>argon2.verify(digest, plain)\<close>, \<open>None\<close> when it
    throws;
  \<^item> \<open>expiryDays\<close> is \<^verbatim>\<open>parseInt(env.REFRESH_TOKEN_EXPIRES_IN.replace('d', ''), 10)\<close>;
  \<^item> \<open>addDays t n\<close> is the date that \<^verbatim>\<open>setDate(getDate() + n)\<close> makes of the date \<open>t\<close>:
    calendar days in the local time zone of the process, which need not last 24 hours;
  \<^item> \<open>emailSchema\<close> and \<open>passwordSchema\<close> (\<open>utils/validators\<close>) give the issues they find
    in a string, none when it is valid.
\<close>

record deps =
  JWT_ACCESS_SECRET :: string
  JWT_REFRESH_SECRET :: string
  ACCESS_TOKEN_EXPIRES_IN :: string
  REFRESH_TOKEN_EXPIRES_IN :: string
  expiryDays :: nat
  addDays :: "date \<Rightarrow> nat \<Rightarrow> date"
  jwt_sign :: "JWTPayload \<Rightarrow> string \<Rightarrow> string \<Rightarrow> date \<Rightarrow> string"
  jwt_decode :: "string \<Rightarrow> string \<Rightarrow> (JWTPayload \<times> date) option"
  argon2_hash :: "string \<Rightarrow> nat \<Rightarrow> string"
  argon2_verify :: "string \<Rightarrow> string \<Rightarrow> bool option"
  emailSchema :: "string \<Rightarrow> string list"
  passwordSchema :: "string \<Rightarrow> string list"

text \<open>
  \<^verbatim>\<open>jwt.verify(token, secret)\<close> at time \<open>now\<close>: the signature must match and the embedded
  expiry must lie in the future; \<open>None\<close> when it throws.
\<close>

definition jwt_verify :: "deps \<Rightarrow> string \<Rightarrow> string \<Rightarrow> date \<Rightarrow> JWTPayload option" where
  "jwt_verify d token secret now =
     (case jwt_decode d token secret of
        None \<Rightarrow> None
      | Some (payload, exp) \<Rightarrow> if now < exp then Some payload else None)"

section \<open>Queries with included relations\<close>

text \<open>
  A required relation whose target row is missing makes the client throw; the foreign
  keys of the schema exclude it, and the model reports it as an \<open>Error\<close>.
\<close>

definition include_permissions :: "prisma \<Rightarrow> string \<Rightarrow> Permission list option" where
  "include_permissions db roleId =
     those (map (\<lambda>rp. find (\<lambda>p. p_id p = rp_permissionId rp) (permissions db))
                (filter (\<lambda>rp. rp_roleId rp = roleId) (rolePermissions db)))"

definition include_role :: "prisma \<Rightarrow> User \<Rightarrow> app_error + UserView" where
  "include_role db u =
     (case find (\<lambda>r. r_id r = u_roleId u) (roles db) of
        None \<Rightarrow> Inl (Error ''Inconsistent query result'')
      | Some r \<Rightarrow>
          (case include_permissions db (r_id r) of
             None \<Rightarrow> Inl (Error ''Inconsistent query result'')
           | Some ps \<Rightarrow>
               Inr \<lparr>uv_id = u_id u, uv_email = u_email u, uv_password = Some (u_password u),
                    uv_isActive = u_isActive u, uv_roleId = u_roleId u,
                    uv_lastLoginAt = u_lastLoginAt u,
                    uv_passwordChangedAt = u_passwordChangedAt u,
                    uv_role = \<lparr>rv_role = r, rv_permissions = ps\<rparr>\<rparr>))"

definition findUnique_include :: "prisma \<Rightarrow> (User \<Rightarrow> bool) \<Rightarrow> app_error + UserView option" where
  "findUnique_include db wh =
     (case find wh (users db) of
        None \<Rightarrow> Inr None
      | Some u \<Rightarrow> (case include_role db u of Inl e \<Rightarrow> Inl e | Inr v \<Rightarrow> Inr (Some v)))"

section \<open>AuthService\<close>

subsection \<open>Token codec and password hashing\<close>

definition verifyAccessToken :: "deps \<Rightarrow> string \<Rightarrow> date \<Rightarrow> app_error + JWTPayload" where
  "verifyAccessToken d token now =
     (case jwt_verify d token (JWT_ACCESS_SECRET d) now of
        Some payload \<Rightarrow> Inr payload
      | None \<Rightarrow> Inl (UnauthorizedError ''Invalid or expired access token''))"

definition verifyRefreshToken :: "deps \<Rightarrow> string \<Rightarrow> date \<Rightarrow> app_error + JWTPayload" where
  "verifyRefreshToken d token now =
     (case jwt_verify d token (JWT_REFRESH_SECRET d) now of
        Some payload \<Rightarrow> Inr payload
      | None \<Rightarrow> Inl (UnauthorizedError ''Invalid or expired refresh token''))"

definition hashPassword :: "deps \<Rightarrow> string \<Rightarrow> nat \<Rightarrow> string" where
  "hashPassword d password salt = argon2_hash d password salt"

text \<open>
  \<open>verifyPassword\<close> catches whatever \<^verbatim>\<open>argon2.verify\<close> throws and answers false. The
  digest is \<open>None\<close> when the caller passes \<^verbatim>\<open>undefined\<close>, which is not an encoded
  hash: \<^verbatim>\<open>argon2.verify\<close> throws on it.
\<close>

definition verifyPassword :: "deps \<Rightarrow> string option \<Rightarrow> string \<Rightarrow> bool" where
  "verifyPassword d hash password =
     (case hash of
        None \<Rightarrow> False
      | Some h \<Rightarrow> (case argon2_verify d h password of None \<Rightarrow> False | Some b \<Rightarrow> b))"

subsection \<open>generateTokenPair\<close>

text \<open>
  Modelled from the spec: the Prisma schema is not among the sources. A RefreshToken row
  is created valid and is "invalidated (revoked flag set) on rotation or logout", so the
  columns the \<^verbatim>\<open>create\<close> call leaves to the schema start as not revoked, with no
  revocation time, under an identifier the database has not used.
\<close>

definition generateTokenPair ::
  "deps \<Rightarrow> prisma \<Rightarrow> string \<Rightarrow> string \<Rightarrow> string \<Rightarrow> string option \<Rightarrow> string option
     \<Rightarrow> date \<Rightarrow> nat \<Rightarrow> TokenPair \<times> prisma" where
  "generateTokenPair d db userId email roleId userAgent ipAddress now salt =
     (let payload = \<lparr>jp_userId = userId, jp_email = email, jp_roleId = roleId\<rparr>;
          access = jwt_sign d payload (JWT_ACCESS_SECRET d) (ACCESS_TOKEN_EXPIRES_IN d) now;
          refresh = jwt_sign d payload (JWT_REFRESH_SECRET d) (REFRESH_TOKEN_EXPIRES_IN d) now;
          expiresAt = addDays d now (expiryDays d);
          hashedRefreshToken = hashPassword d refresh salt;
          row = \<lparr>rt_id = nextId db, rt_token = hashedRefreshToken, rt_userId = userId,
                 rt_expiresAt = expiresAt, rt_isRevoked = False, rt_revokedAt = None,
                 rt_userAgent = userAgent, rt_ipAddress = ipAddress\<rparr>
      in (\<lparr>tp_accessToken = access, tp_refreshToken = refresh\<rparr>,
          db\<lparr>refreshTokens := refreshTokens db @ [row], nextId := Suc (nextId db)\<rparr>))"

subsection \<open>login\<close>

definition login ::
  "deps \<Rightarrow> prisma \<Rightarrow> string \<Rightarrow> string \<Rightarrow> string option \<Rightarrow> string option \<Rightarrow> date \<Rightarrow> nat
     \<Rightarrow> (app_error + UserView \<times> TokenPair) \<times> prisma" where
  "login d db email password userAgent ipAddress now salt =
     (case findUnique_include db (\<lambda>u. u_email u = email) of
        Inl e \<Rightarrow> (Inl e, db)
      | Inr None \<Rightarrow> (Inl (UnauthorizedError ''Invalid credentials''), db)
      | Inr (Some user) \<Rightarrow>
          if \<not> uv_isActive user then (Inl (UnauthorizedError ''Account is deactivated''), db)
          else if \<not> verifyPassword d (uv_password user) password
            then (Inl (UnauthorizedError ''Invalid credentials''), db)
          else
            (let db1 = db\<lparr>users := map (\<lambda>u. if u_id u = uv_id user
                                              then u\<lparr>u_lastLoginAt := Some now\<rparr> else u)
                                        (users db)\<rparr>;
                 (tokens, db2) = generateTokenPair d db1 (uv_id user) (uv_email user)
                                   (uv_roleId user) userAgent ipAddress now salt
             in (Inr (user\<lparr>uv_password := None\<rparr>, tokens), db2)))"

subsection \<open>refreshAccessToken\<close>

text \<open>The loop over the stored rows, left at the first digest that verifies.\<close>

fun isValidToken :: "deps \<Rightarrow> RefreshToken list \<Rightarrow> string \<Rightarrow> bool" where
  "isValidToken d [] refreshToken = False"
| "isValidToken d (storedToken # rest) refreshToken =
     (if verifyPassword d (Some (rt_token storedToken)) refreshToken then True
      else isValidToken d rest refreshToken)"

text \<open>The update \<^verbatim>\<open>data: { isRevoked: true, revokedAt: new Date() }\<close> of one row.\<close>

definition revokeRow :: "date \<Rightarrow> RefreshToken \<Rightarrow> RefreshToken" where
  "revokeRow now t = t\<lparr>rt_isRevoked := True, rt_revokedAt := Some now\<rparr>"

text \<open>\<^verbatim>\<open>updateMany({ where: { userId, isRevoked: false }, data: { isRevoked: true, revokedAt } })\<close>\<close>

definition revokeMany :: "prisma \<Rightarrow> string \<Rightarrow> date \<Rightarrow> prisma" where
  "revokeMany db userId now =
     db\<lparr>refreshTokens :=
          map (\<lambda>t. if rt_userId t = userId \<and> \<not> rt_isRevoked t then revokeRow now t else t)
              (refreshTokens db)\<rparr>"

definition refreshAccessToken ::
  "deps \<Rightarrow> prisma \<Rightarrow> string \<Rightarrow> string option \<Rightarrow> string option \<Rightarrow> date \<Rightarrow> nat
     \<Rightarrow> (app_error + TokenPair) \<times> prisma" where
  "refreshAccessToken d db refreshToken userAgent ipAddress now salt =
     (case verifyRefreshToken d refreshToken now of
        Inl e \<Rightarrow> (Inl e, db)
      | Inr payload \<Rightarrow>
          (let storedTokens = filter (\<lambda>t. rt_userId t = jp_userId payload \<and> \<not> rt_isRevoked t
                                            \<and> now < rt_expiresAt t) (refreshTokens db)
           in if \<not> isValidToken d storedTokens refreshToken
              then (Inl (UnauthorizedError ''Invalid refresh token''), db)
              else
                (case find (\<lambda>u. u_id u = jp_userId payload) (users db) of
                   None \<Rightarrow> (Inl (UnauthorizedError ''User not found or inactive''), db)
                 | Some user \<Rightarrow>
                     if \<not> u_isActive user
                     then (Inl (UnauthorizedError ''User not found or inactive''), db)
                     else
                       (let (tokens, db1) = generateTokenPair d db (u_id user) (u_email user)
                                              (u_roleId user) userAgent ipAddress now salt
                        in (Inr tokens, revokeMany db1 (u_id user) now)))))"

subsection \<open>logout\<close>

text \<open>
  The loop of the branch with a token: the first stored row whose digest verifies is
  revoked by its identifier, and the loop is left.
\<close>

fun revokeFirstMatch :: "deps \<Rightarrow> prisma \<Rightarrow> RefreshToken list \<Rightarrow> string \<Rightarrow> date \<Rightarrow> prisma" where
  "revokeFirstMatch d db [] refreshToken now = db"
| "revokeFirstMatch d db (storedToken # rest) refreshToken now =
     (if verifyPassword d (Some (rt_token storedToken)) refreshToken
      then db\<lparr>refreshTokens :=
                 map (\<lambda>t. if rt_id t = rt_id storedToken then revokeRow now t else t)
                     (refreshTokens db)\<rparr>
      else revokeFirstMatch d db rest refreshToken now)"

text \<open>\<^verbatim>\<open>if (refreshToken)\<close> is false for \<^verbatim>\<open>undefined\<close> and for the empty string.\<close>

definition logout :: "deps \<Rightarrow> prisma \<Rightarrow> string \<Rightarrow> string option \<Rightarrow> date \<Rightarrow> prisma" where
  "logout d db userId refreshToken now =
     (case refreshToken of
        Some tok \<Rightarrow>
          if tok \<noteq> []
          then revokeFirstMatch d db
                 (filter (\<lambda>t. rt_userId t = userId \<and> \<not> rt_isRevoked t) (refreshTokens db)) tok now
          else revokeMany db userId now
      | None \<Rightarrow> revokeMany db userId now)"

subsection \<open>cleanupExpiredTokens\<close>

text \<open>
  \<^verbatim>\<open>deleteMany({ where: { expiresAt: { lt: new Date() } } })\<close>; the result is the number
  of deleted rows.
\<close>

definition cleanupExpiredTokens :: "prisma \<Rightarrow> date \<Rightarrow> nat \<times> prisma" where
  "cleanupExpiredTokens db now =
     (length (filter (\<lambda>t. rt_expiresAt t < now) (refreshTokens db)),
      db\<lparr>refreshTokens := filter (\<lambda>t. \<not> rt_expiresAt t < now) (refreshTokens db)\<rparr>)"

subsection \<open>getUserWithPermissions\<close>

definition getUserWithPermissions :: "prisma \<Rightarrow> string \<Rightarrow> app_error + UserView" where
  "getUserWithPermissions db userId =
     (case findUnique_include db (\<lambda>u. u_id u = userId) of
        Inl e \<Rightarrow> Inl e
      | Inr None \<Rightarrow> Inl (NotFoundError ''User not found'')
      | Inr (Some user) \<Rightarrow> Inr (user\<lparr>uv_password := None\<rparr>))"

section \<open>PermissionService\<close>

definition hasPermission :: "prisma \<Rightarrow> string \<Rightarrow> Resource \<Rightarrow> Action \<Rightarrow> app_error + bool" where
  "hasPermission db userId resource action =
     (case findUnique_include db (\<lambda>u. u_id u = userId) of
        Inl e \<Rightarrow> Inl e
      | Inr None \<Rightarrow> Inr False
      | Inr (Some user) \<Rightarrow>
          if r_slug (rv_role (uv_role user)) = ''super-admin'' then Inr True
          else Inr (list_ex (\<lambda>p. p_resource p = resource_value resource
                                  \<and> p_action p = action_value action)
                            (rv_permissions (uv_role user))))"

definition getUserPermissions :: "prisma \<Rightarrow> string \<Rightarrow> app_error + Permission list" where
  "getUserPermissions db userId =
     (case findUnique_include db (\<lambda>u. u_id u = userId) of
        Inl e \<Rightarrow> Inl e
      | Inr None \<Rightarrow> Inl (NotFoundError ''User not found'')
      | Inr (Some user) \<Rightarrow> Inr (rv_permissions (uv_role user)))"

text \<open>
  The created row comes back with its permission joined; the model returns the row.
\<close>

definition assignPermissionToRole ::
  "prisma \<Rightarrow> string \<Rightarrow> string \<Rightarrow> (app_error + RolePermission) \<times> prisma" where
  "assignPermissionToRole db roleId permissionId =
     (case find (\<lambda>r. r_id r = roleId) (roles db) of
        None \<Rightarrow> (Inl (NotFoundError ''Role not found''), db)
      | Some role \<Rightarrow>
          (case find (\<lambda>p. p_id p = permissionId) (permissions db) of
             None \<Rightarrow> (Inl (NotFoundError ''Permission not found''), db)
           | Some permission \<Rightarrow>
               (case find (\<lambda>rp. rp_roleId rp = roleId \<and> rp_permissionId rp = permissionId)
                          (rolePermissions db) of
                  Some existing \<Rightarrow> (Inr existing, db)
                | None \<Rightarrow>
                    (let row = \<lparr>rp_id = nextId db, rp_roleId = roleId,
                                rp_permissionId = permissionId\<rparr>
                     in (Inr row, db\<lparr>rolePermissions := rolePermissions db @ [row],
                                      nextId := Suc (nextId db)\<rparr>)))))"

section \<open>Responses\<close>

datatype response_data = LoginData UserView string | RefreshData string

datatype cookie_op = NoCookie | SetRefreshToken string | ClearRefreshToken

record HttpResponse =
  res_status :: nat
  res_success :: bool
  res_message :: "string option"
  res_data :: "response_data option"
  res_errors :: "string list option"
  res_cookie :: cookie_op

definition ApiResponseUtil_success :: "response_data option \<Rightarrow> string option \<Rightarrow> nat \<Rightarrow> HttpResponse" where
  "ApiResponseUtil_success dat msg code =
     \<lparr>res_status = code, res_success = True, res_message = msg, res_data = dat,
      res_errors = None, res_cookie = NoCookie\<rparr>"

definition ApiResponseUtil_error :: "string \<Rightarrow> string list option \<Rightarrow> nat \<Rightarrow> HttpResponse" where
  "ApiResponseUtil_error msg errs code =
     \<lparr>res_status = code, res_success = False, res_message = Some msg, res_data = None,
      res_errors = errs, res_cookie = NoCookie\<rparr>"

definition ApiResponseUtil_unauthorized :: "string \<Rightarrow> HttpResponse" where
  "ApiResponseUtil_unauthorized msg = ApiResponseUtil_error msg None 401"

definition ApiResponseUtil_forbidden :: "string \<Rightarrow> HttpResponse" where
  "ApiResponseUtil_forbidden msg = ApiResponseUtil_error msg None 403"

definition ApiResponseUtil_validationError :: "string list \<Rightarrow> HttpResponse" where
  "ApiResponseUtil_validationError errs = ApiResponseUtil_error ''Validation failed'' (Some errs) 422"

fun error_message :: "app_error \<Rightarrow> string" where
  "error_message (UnauthorizedError m) = m"
| "error_message (ConflictError m) = m"
| "error_message (NotFoundError m) = m"
| "error_message (ForbiddenError m) = m"
| "error_message (Error m) = m"

text \<open>
  Modelled from the spec: the error classes of \<open>utils/errors\<close> are not among the sources.
  Their status codes follow the error kinds of the specification and the codes
  \<open>ApiResponseUtil\<close> uses for them (401 unauthorized, 403 forbidden, 404 not found), with
  409 for a conflict; a plain \<open>Error\<close> has no \<open>statusCode\<close> property.
\<close>

fun error_statusCode :: "app_error \<Rightarrow> nat option" where
  "error_statusCode (UnauthorizedError m) = Some 401"
| "error_statusCode (ConflictError m) = Some 409"
| "error_statusCode (NotFoundError m) = Some 404"
| "error_statusCode (ForbiddenError m) = Some 403"
| "error_statusCode (Error m) = None"

text \<open>
  The \<^verbatim>\<open>catch\<close> branch of the controllers:
  \<^verbatim>\<open>ApiResponseUtil.error(res, error.message, null, error.statusCode || 500)\<close>.
\<close>

definition error_response :: "app_error \<Rightarrow> HttpResponse" where
  "error_response e =
     ApiResponseUtil_error (error_message e) None
       (case error_statusCode e of None \<Rightarrow> 500 | Some c \<Rightarrow> if c = 0 then 500 else c)"

section \<open>Permission middleware\<close>

record AuthRequest =
  req_user :: "UserView option"
  req_userId :: "string option"

datatype middleware_result = Next | Respond HttpResponse

text \<open>The argument of \<open>requireRole\<close> is one slug or an array of slugs.\<close>

datatype roleSlugs = One string | Many "string list"

definition allowedRoles :: "roleSlugs \<Rightarrow> string list" where
  "allowedRoles slugs = (case slugs of Many xs \<Rightarrow> xs | One x \<Rightarrow> [x])"

definition requireRole :: "roleSlugs \<Rightarrow> AuthRequest \<Rightarrow> middleware_result" where
  "requireRole slugs req =
     (case req_user req of
        None \<Rightarrow> Respond (ApiResponseUtil_unauthorized ''Authentication required'')
      | Some user \<Rightarrow>
          (let userRole = r_slug (rv_role (uv_role user))
           in if userRole \<notin> set (allowedRoles slugs)
              then Respond (ApiResponseUtil_forbidden
                     ''You don't have the required role to access this resource'')
              else Next))"

section \<open>AuthController\<close>

text \<open>A string field of the request body under a schema; an absent field is an issue.\<close>

definition zod_string :: "(string \<Rightarrow> string list) \<Rightarrow> string option \<Rightarrow> string list" where
  "zod_string schema field = (case field of None \<Rightarrow> [''Required''] | Some s \<Rightarrow> schema s)"

definition min1 :: "string \<Rightarrow> string \<Rightarrow> string list" where
  "min1 msg s = (if length s < 1 then [msg] else [])"

text \<open>
  \<^verbatim>\<open>z.object({ ... }).parse(req.body)\<close> for a body of two string fields: the parsed
  strings, or the issues of the \<^verbatim>\<open>ZodError\<close>.
\<close>

definition parse_body ::
  "(string \<Rightarrow> string list) \<Rightarrow> (string \<Rightarrow> string list) \<Rightarrow> string option \<Rightarrow> string option
     \<Rightarrow> string list + string \<times> string" where
  "parse_body schema1 schema2 field1 field2 =
     (let issues = zod_string schema1 field1 @ zod_string schema2 field2
      in case (issues, field1, field2) of
           ([], Some a, Some b) \<Rightarrow> Inr (a, b)
         | _ \<Rightarrow> Inl issues)"

subsection \<open>login\<close>

definition AuthController_login ::
  "deps \<Rightarrow> prisma \<Rightarrow> string option \<Rightarrow> string option \<Rightarrow> string option \<Rightarrow> string option
     \<Rightarrow> date \<Rightarrow> nat \<Rightarrow> HttpResponse \<times> prisma" where
  "AuthController_login d db email password userAgent ipAddress now salt =
     (case parse_body (emailSchema d) (min1 ''Password is required'') email password of
        Inl issues \<Rightarrow> (ApiResponseUtil_validationError issues, db)
      | Inr (validEmail, validPassword) \<Rightarrow>
          (case login d db validEmail validPassword userAgent ipAddress now salt of
             (Inl e, db') \<Rightarrow> (error_response e, db')
           | (Inr (user, tokens), db') \<Rightarrow>
               ((ApiResponseUtil_success (Some (LoginData user (tp_accessToken tokens)))
                   (Some ''Login successful'') 200)
                  \<lparr>res_cookie := SetRefreshToken (tp_refreshToken tokens)\<rparr>, db')))"

subsection \<open>changePassword\<close>

text \<open>
  The user comes from \<open>getUserWithPermissions\<close>, and the digest handed to
  \<open>verifyPassword\<close> is its \<^verbatim>\<open>password\<close> property.
\<close>

definition AuthController_changePassword ::
  "deps \<Rightarrow> prisma \<Rightarrow> AuthRequest \<Rightarrow> string option \<Rightarrow> string option \<Rightarrow> date \<Rightarrow> nat
     \<Rightarrow> HttpResponse \<times> prisma" where
  "AuthController_changePassword d db req currentPassword newPassword now salt =
     (case parse_body (min1 ''Current password is required'') (passwordSchema d)
             currentPassword newPassword of
        Inl issues \<Rightarrow> (ApiResponseUtil_validationError issues, db)
      | Inr (current, new) \<Rightarrow>
          (case req_userId req of
             None \<Rightarrow> (ApiResponseUtil_unauthorized ''Unauthorized'', db)
           | Some userId \<Rightarrow>
               (case getUserWithPermissions db userId of
                  Inl e \<Rightarrow> (error_response e, db)
                | Inr user \<Rightarrow>
                    if \<not> verifyPassword d (uv_password user) current
                    then (ApiResponseUtil_error ''Current password is incorrect'' None 400, db)
                    else
                      (let hashedPassword = hashPassword d new salt;
                           db1 = db\<lparr>users :=
                                      map (\<lambda>u. if u_id u = userId
                                                then u\<lparr>u_password := hashedPassword,
                                                        u_passwordChangedAt := Some now\<rparr>
                                                else u)
                                          (users db)\<rparr>;
                           db2 = logout d db1 userId None now
                       in (ApiResponseUtil_success None
                             (Some ''Password changed successfully'') 200, db2)))))"

section \<open>A fixture\<close>

text \<open>
  Test doubles for the libraries, to run the services on concrete stores: a token is a
  fixed string per secret and signing time, valid for 1000 time units; a digest is the
  plain text behind a mark and as many salt characters as the salt says; a calendar day
  lasts 86400000 time units.
\<close>

definition alice_payload :: JWTPayload where
  "alice_payload = \<lparr>jp_userId = ''u1'', jp_email = ''alice@example.com'', jp_roleId = ''r-emp''\<rparr>"

definition fx_sign :: "JWTPayload \<Rightarrow> string \<Rightarrow> string \<Rightarrow> date \<Rightarrow> string" where
  "fx_sign payload secret expiresIn now =
     (if secret = ''refresh-secret''
      then (if now = 10 then ''RT10'' else if now = 15 then ''RT15''
            else if now = 20 then ''RT20'' else ''RT'')
      else ''AT'')"

definition fx_decode :: "string \<Rightarrow> string \<Rightarrow> (JWTPayload \<times> date) option" where
  "fx_decode token secret =
     (if secret = ''refresh-secret'' \<and> token = ''RT10'' then Some (alice_payload, 1010)
      else if secret = ''refresh-secret'' \<and> token = ''RT15'' then Some (alice_payload, 1015)
      else if secret = ''refresh-secret'' \<and> token = ''RT20'' then Some (alice_payload, 1020)
      else None)"

definition fx_hash :: "string \<Rightarrow> nat \<Rightarrow> string" where
  "fx_hash plain salt = replicate salt CHR ''s'' @ CHR ''$'' # plain"

definition fx_verify :: "string \<Rightarrow> string \<Rightarrow> bool option" where
  "fx_verify digest plain =
     (if digest = [] then None
      else Some (dropWhile (\<lambda>c. c = CHR ''s'') digest = CHR ''$'' # plain))"

definition fx_deps :: deps where
  "fx_deps = \<lparr>JWT_ACCESS_SECRET = ''access-secret'', JWT_REFRESH_SECRET = ''refresh-secret'',
     ACCESS_TOKEN_EXPIRES_IN = ''15m'', REFRESH_TOKEN_EXPIRES_IN = ''30d'', expiryDays = 30,
     addDays = (\<lambda>t n. t + n * 86400000),
     jwt_sign = fx_sign, jwt_decode = fx_decode, argon2_hash = fx_hash,
     argon2_verify = fx_verify,
     emailSchema = (\<lambda>s. if CHR ''@'' \<in> set s then [] else [''Invalid email address'']),
     passwordSchema = (\<lambda>s. if length s < 8 then [''Password too short''] else [])\<rparr>"

definition fx_roles :: "Role list" where
  "fx_roles =
     [\<lparr>r_id = ''r-sa'', r_name = ''Super Admin'', r_slug = ''super-admin'', r_isSystem = True\<rparr>,
      \<lparr>r_id = ''r-hr'', r_name = ''HR Manager'', r_slug = ''hr-manager'', r_isSystem = True\<rparr>,
      \<lparr>r_id = ''r-emp'', r_name = ''Employee'', r_slug = ''employee'', r_isSystem = True\<rparr>]"

definition fx_permissions :: "Permission list" where
  "fx_permissions =
     [\<lparr>p_id = ''p1'', p_name = ''Read payroll'', p_slug = ''payroll:read'',
       p_resource = ''payroll'', p_action = ''read''\<rparr>,
      \<lparr>p_id = ''p2'', p_name = ''Create leave'', p_slug = ''leave:create'',
       p_resource = ''leave'', p_action = ''create''\<rparr>,
      \<lparr>p_id = ''p3'', p_name = ''Read file'', p_slug = ''file:read'',
       p_resource = ''file'', p_action = ''read''\<rparr>]"

definition fx_rolePermissions :: "RolePermission list" where
  "fx_rolePermissions =
     [\<lparr>rp_id = 0, rp_roleId = ''r-hr'', rp_permissionId = ''p1''\<rparr>,
      \<lparr>rp_id = 1, rp_roleId = ''r-emp'', rp_permissionId = ''p2''\<rparr>]"

definition fx_users :: "User list" where
  "fx_users =
     [\<lparr>u_id = ''u0'', u_email = ''root@example.com'', u_password = ''$toor'',
       u_isActive = True, u_roleId = ''r-sa'', u_lastLoginAt = None,
       u_passwordChangedAt = None\<rparr>,
      \<lparr>u_id = ''u1'', u_email = ''alice@example.com'', u_password = ''$wonderland'',
       u_isActive = True, u_roleId = ''r-emp'', u_lastLoginAt = None,
       u_passwordChangedAt = None\<rparr>,
      \<lparr>u_id = ''u2'', u_email = ''bob@example.com'', u_password = ''$builder'',
       u_isActive = False, u_roleId = ''r-emp'', u_lastLoginAt = None,
       u_passwordChangedAt = None\<rparr>]"

definition fx_db :: prisma where
  "fx_db = \<lparr>users = fx_users, roles = fx_roles, permissions = fx_permissions,
     rolePermissions = fx_rolePermissions, refreshTokens = [], nextId = 2\<rparr>"

text \<open>A ledger row of the fixture: identifier, owner, expiry, revoked flag.\<close>

definition fx_row :: "nat \<Rightarrow> string \<Rightarrow> date \<Rightarrow> bool \<Rightarrow> RefreshToken" where
  "fx_row i uid exp revoked =
     \<lparr>rt_id = i, rt_token = ''$RT'', rt_userId = uid, rt_expiresAt = exp,
      rt_isRevoked = revoked, rt_revokedAt = (if revoked then Some 1 else None),
      rt_userAgent = None, rt_ipAddress = None\<rparr>"

text \<open>
  The ledger row of the fixture's employee for a token signed at \<open>now\<close>, and the
  stores after her login at time 10 and after her refresh at time 20.
\<close>

definition fx_alice_row :: "nat \<Rightarrow> string \<Rightarrow> date \<Rightarrow> RefreshToken" where
  "fx_alice_row i tok now =
     \<lparr>rt_id = i, rt_token = CHR ''$'' # tok, rt_userId = ''u1'',
      rt_expiresAt = now + 30 * 86400000, rt_isRevoked = False, rt_revokedAt = None,
      rt_userAgent = None, rt_ipAddress = None\<rparr>"

definition fx_db1 :: prisma where
  "fx_db1 = fx_db\<lparr>users := [fx_users ! 0, (fx_users ! 1)\<lparr>u_lastLoginAt := Some 10\<rparr>, fx_users ! 2],
                  refreshTokens := [fx_alice_row 2 ''RT10'' 10], nextId := 3\<rparr>"

definition fx_db2 :: prisma where
  "fx_db2 = fx_db1\<lparr>refreshTokens := [revokeRow 20 (fx_alice_row 2 ''RT10'' 10),
                                      revokeRow 20 (fx_alice_row 3 ''RT20'' 20)],
                    nextId := 4\<rparr>"




text \<open>The request of the fixture's super admin, as \<open>authenticate\<close> leaves it.\<close>

definition fx_root_request :: AuthRequest where
  "fx_root_request =
     \<lparr>req_user = Some \<lparr>uv_id = ''u0'', uv_email = ''root@example.com'', uv_password = None,
                        uv_isActive = True, uv_roleId = ''r-sa'', uv_lastLoginAt = None,
                        uv_passwordChangedAt = None,
                        uv_role = \<lparr>rv_role = hd fx_roles, rv_permissions = []\<rparr>\<rparr>,
      req_userId = Some ''u0''\<rparr>"

section \<open>The expiry sweep\<close>

text \<open>
  Claim C7. \<open>cleanupExpiredTokens\<close> (the specification's \<open>sweepExpired\<close>) deletes
  exactly the ledger rows whose expiry lies before the current time, whatever their
  revoked flag, touches nothing else, and returns how many it deleted. A second sweep
  at a time \<open>now'\<close> by which no further row has expired deletes nothing and returns 0.
\<close>

theorem cleanupExpiredTokens_exact_idempotent:
  assumes "cleanupExpiredTokens db now = (n, db')"
  shows "refreshTokens db' = filter (\<lambda>t. \<not> rt_expiresAt t < now) (refreshTokens db)
       \<and> n = length (filter (\<lambda>t. rt_expiresAt t < now) (refreshTokens db))
       \<and> db' = db\<lparr>refreshTokens := refreshTokens db'\<rparr>
       \<and> ((\<forall>t \<in> set (refreshTokens db). rt_expiresAt t < now' \<longrightarrow> rt_expiresAt t < now)
            \<longrightarrow> cleanupExpiredTokens db' now' = (0, db'))"
proof -
  from assms have n: "n = length (filter (\<lambda>t. rt_expiresAt t < now) (refreshTokens db))"
    and db': "db' = db\<lparr>refreshTokens := filter (\<lambda>t. \<not> rt_expiresAt t < now) (refreshTokens db)\<rparr>"
    by (simp_all add: cleanupExpiredTokens_def)
  have idem: "cleanupExpiredTokens db' now' = (0, db')"
    if "\<forall>t \<in> set (refreshTokens db). rt_expiresAt t < now' \<longrightarrow> rt_expiresAt t < now"
  proof -
    have a: "filter (\<lambda>t. rt_expiresAt t < now') (refreshTokens db') = []"
      using that by (auto simp: db' filter_empty_conv)
    have b: "filter (\<lambda>t. \<not> rt_expiresAt t < now') (refreshTokens db') = refreshTokens db'"
      using that by (auto simp: db' intro!: filter_cong)
    show ?thesis
      by (simp add: cleanupExpiredTokens_def a b)
  qed
  show ?thesis using n db' idem by simp
qed

text \<open>
  A ledger with an expired revoked row, an expired live row and a row still valid, swept
  at time 10 and again at time 12.
\<close>

theorem cleanupExpiredTokens_exact_idempotent_witness:
  "cleanupExpiredTokens
     (fx_db\<lparr>refreshTokens := [fx_row 2 ''u1'' 5 True, fx_row 3 ''u1'' 7 False,
                               fx_row 4 ''u1'' 50 False]\<rparr>) 10
     = (2, fx_db\<lparr>refreshTokens := [fx_row 4 ''u1'' 50 False]\<rparr>)
   \<and> cleanupExpiredTokens (fx_db\<lparr>refreshTokens := [fx_row 4 ''u1'' 50 False]\<rparr>) 12
     = (0, fx_db\<lparr>refreshTokens := [fx_row 4 ''u1'' 50 False]\<rparr>)"
proof -
  let ?db = "fx_db\<lparr>refreshTokens := [fx_row 2 ''u1'' 5 True, fx_row 3 ''u1'' 7 False,
                                       fx_row 4 ''u1'' 50 False]\<rparr>"
  let ?db' = "fx_db\<lparr>refreshTokens := [fx_row 4 ''u1'' 50 False]\<rparr>"
  have run: "cleanupExpiredTokens ?db 10 = (2, ?db')"
    by (simp add: cleanupExpiredTokens_def fx_row_def)
  have quiet: "\<forall>t \<in> set (refreshTokens ?db). rt_expiresAt t < 12 \<longrightarrow> rt_expiresAt t < 10"
    by (simp add: fx_row_def)
  from cleanupExpiredTokens_exact_idempotent [OF run, of 12] quiet
  have "cleanupExpiredTokens ?db' 12 = (0, ?db')"
    by blast
  with run show ?thesis by simp
qed

section \<open>Permission checks\<close>

subsection \<open>Loading a user with its role\<close>

lemma findUnique_include_found:
  assumes "find wh (users db) = Some u"
    and "find (\<lambda>r. r_id r = u_roleId u) (roles db) = Some r"
    and "include_permissions db (r_id r) = Some ps"
  shows "\<exists>v. findUnique_include db wh = Inr (Some v) \<and> uv_id v = u_id u
           \<and> uv_isActive v = u_isActive u \<and> uv_password v = Some (u_password u)
           \<and> uv_email v = u_email u \<and> uv_roleId v = u_roleId u
           \<and> uv_role v = \<lparr>rv_role = r, rv_permissions = ps\<rparr>"
  using assms by (simp add: findUnique_include_def include_role_def)

text \<open>
  Claim C2. A stored user whose role carries the slug \<open>super-admin\<close> passes
  \<open>hasPermission\<close> (the specification's \<open>check\<close>) for every resource and action,
  whatever rows the Permission and RolePermission tables hold.
\<close>

theorem hasPermission_super_admin:
  assumes "find (\<lambda>u. u_id u = userId) (users db) = Some u"
    and "find (\<lambda>r. r_id r = u_roleId u) (roles db) = Some r"
    and "include_permissions db (r_id r) = Some ps"
    and "r_slug r = ''super-admin''"
  shows "hasPermission db userId resource action = Inr True"
proof -
  from findUnique_include_found [OF assms(1-3)] obtain v where
    "findUnique_include db (\<lambda>u. u_id u = userId) = Inr (Some v)"
    "uv_role v = \<lparr>rv_role = r, rv_permissions = ps\<rparr>"
    by blast
  with assms(4) show ?thesis
    by (simp add: hasPermission_def)
qed

text \<open>
  The fixture's super admin has no RolePermission row at all, and no Permission row
  exists for approving payroll; the check passes all the same.
\<close>

theorem hasPermission_super_admin_witness:
  "hasPermission fx_db ''u0'' PAYROLL APPROVE = Inr True
   \<and> include_permissions fx_db ''r-sa'' = Some []
   \<and> find (\<lambda>p. p_resource p = ''payroll'' \<and> p_action p = ''approve'') (permissions fx_db) = None"
proof -
  have u: "find (\<lambda>u. u_id u = ''u0'') (users fx_db) = Some (hd fx_users)"
    by (simp add: fx_db_def fx_users_def)
  have r: "find (\<lambda>r. r_id r = u_roleId (hd fx_users)) (roles fx_db) = Some (hd fx_roles)"
    by (simp add: fx_db_def fx_users_def fx_roles_def)
  have j: "include_permissions fx_db (r_id (hd fx_roles)) = Some []"
    by (simp add: include_permissions_def fx_db_def fx_roles_def fx_rolePermissions_def)
  have s: "r_slug (hd fx_roles) = ''super-admin''"
    by (simp add: fx_roles_def)
  have n: "find (\<lambda>p. p_resource p = ''payroll'' \<and> p_action p = ''approve'') (permissions fx_db) = None"
    by (simp add: fx_db_def fx_permissions_def)
  from hasPermission_super_admin [OF u r j s, of PAYROLL APPROVE] j n
  show ?thesis by (simp add: fx_roles_def)
qed

text \<open>
  Claim C10. For a principal id that matches no stored user, \<open>hasPermission\<close> answers
  false for every resource and action, where \<open>getUserPermissions\<close> (the
  specification's \<open>resolve\<close>) fails with \<open>NotFound\<close>.
\<close>

theorem missing_user_check_and_resolve:
  assumes "find (\<lambda>u. u_id u = userId) (users db) = None"
  shows "hasPermission db userId resource action = Inr False
       \<and> getUserPermissions db userId = Inl (NotFoundError ''User not found'')"
  using assms
  by (simp add: hasPermission_def getUserPermissions_def findUnique_include_def)

theorem missing_user_check_and_resolve_witness:
  "hasPermission fx_db ''nobody'' USER READ = Inr False
   \<and> getUserPermissions fx_db ''nobody'' = Inl (NotFoundError ''User not found'')"
proof -
  have "find (\<lambda>u. u_id u = ''nobody'') (users fx_db) = None"
    by (simp add: fx_db_def fx_users_def)
  from missing_user_check_and_resolve [OF this] show ?thesis .
qed

subsection \<open>Roles other than the super admin\<close>

lemma those_snoc:
  "those (xs @ [Some y]) = map_option (\<lambda>ys. ys @ [y]) (those xs)"
  by (induction xs) (auto simp: option.map_comp comp_def split: option.splits)

lemma those_Some_iff:
  "those xs = Some ys \<longleftrightarrow> xs = map Some ys"
  by (induction xs arbitrary: ys) (auto split: option.splits)

lemma include_permissions_Some_set:
  assumes "include_permissions db rid = Some ps"
  shows "set ps = {p. \<exists>rp \<in> set (rolePermissions db). rp_roleId rp = rid
                       \<and> find (\<lambda>p. p_id p = rp_permissionId rp) (permissions db) = Some p}"
proof -
  from assms have eq: "map (\<lambda>rp. find (\<lambda>p. p_id p = rp_permissionId rp) (permissions db))
                (filter (\<lambda>rp. rp_roleId rp = rid) (rolePermissions db)) = map Some ps"
    by (simp add: include_permissions_def those_Some_iff)
  have "Some ` set ps = set (map Some ps)" by simp
  also have "\<dots> = (\<lambda>rp. find (\<lambda>p. p_id p = rp_permissionId rp) (permissions db))
                     ` {rp \<in> set (rolePermissions db). rp_roleId rp = rid}"
    unfolding eq [symmetric] by simp
  finally have "Some ` set ps = (\<lambda>rp. find (\<lambda>p. p_id p = rp_permissionId rp) (permissions db))
                     ` {rp \<in> set (rolePermissions db). rp_roleId rp = rid}" .
  then show ?thesis
    by (auto simp: image_iff set_eq_iff) (metis option.inject)+
qed

lemma assign_unrelated_include:
  assumes "assignPermissionToRole db roleId permissionId = (Inr row, db')"
    and "find (\<lambda>p. p_id p = permissionId) (permissions db) = Some q"
  shows "users db' = users db \<and> roles db' = roles db
       \<and> (include_permissions db' rid = include_permissions db rid
          \<or> include_permissions db' rid
              = map_option (\<lambda>ps. ps @ [q]) (include_permissions db rid))"
  using assms
  by (auto simp: assignPermissionToRole_def include_permissions_def those_snoc Let_def
      split: option.splits)


lemma hasPermission_assign_unrelated:
  assumes a: "assignPermissionToRole db roleId permissionId = (Inr row, db')"
    and q: "find (\<lambda>p. p_id p = permissionId) (permissions db) = Some q"
    and un: "(p_resource q, p_action q) \<noteq> (resource_value resource, action_value action)"
  shows "hasPermission db' userId resource action = hasPermission db userId resource action"
proof (cases "find (\<lambda>u. u_id u = userId) (users db)")
  case None
  with assign_unrelated_include [OF a q] show ?thesis
    by (simp add: hasPermission_def findUnique_include_def)
next
  case (Some u)
  show ?thesis
  proof (cases "find (\<lambda>r. r_id r = u_roleId u) (roles db)")
    case None
    with Some assign_unrelated_include [OF a q] show ?thesis
      by (simp add: hasPermission_def findUnique_include_def include_role_def)
  next
    case r: (Some r)
    from assign_unrelated_include [OF a q, of "r_id r"]
    have same: "users db' = users db" "roles db' = roles db"
      and inc: "include_permissions db' (r_id r) = include_permissions db (r_id r)
          \<or> include_permissions db' (r_id r)
              = map_option (\<lambda>ps. ps @ [q]) (include_permissions db (r_id r))"
      by simp_all
    from inc show ?thesis
    proof
      assume "include_permissions db' (r_id r) = include_permissions db (r_id r)"
      with Some r same show ?thesis
        by (simp add: hasPermission_def findUnique_include_def include_role_def)
    next
      assume "include_permissions db' (r_id r)
              = map_option (\<lambda>ps. ps @ [q]) (include_permissions db (r_id r))"
      with Some r same un show ?thesis
        by (auto simp: hasPermission_def findUnique_include_def include_role_def
            split: option.splits)
    qed
  qed
qed

text \<open>
  Claim C6. For a stored user whose role is not the super admin, \<open>hasPermission\<close> is
  true exactly when a RolePermission row of that role points to a Permission row with
  the requested resource and action. Assigning a permission with another resource or
  action to any role leaves the answer as it was.
\<close>

theorem hasPermission_regular_role:
  assumes u: "find (\<lambda>u. u_id u = userId) (users db) = Some u"
    and r: "find (\<lambda>r. r_id r = u_roleId u) (roles db) = Some r"
    and j: "include_permissions db (r_id r) = Some ps"
    and s: "r_slug r \<noteq> ''super-admin''"
  shows "hasPermission db userId resource action
           = Inr (\<exists>rp \<in> set (rolePermissions db). rp_roleId rp = r_id r
                   \<and> (\<exists>p. find (\<lambda>p. p_id p = rp_permissionId rp) (permissions db) = Some p
                          \<and> p_resource p = resource_value resource
                          \<and> p_action p = action_value action))
       \<and> (\<forall>roleId permissionId row db' q.
            assignPermissionToRole db roleId permissionId = (Inr row, db')
            \<and> find (\<lambda>p. p_id p = permissionId) (permissions db) = Some q
            \<and> (p_resource q, p_action q) \<noteq> (resource_value resource, action_value action)
            \<longrightarrow> hasPermission db' userId resource action
                = hasPermission db userId resource action)"
proof -
  from findUnique_include_found [OF u r j] obtain v where
    v: "findUnique_include db (\<lambda>u. u_id u = userId) = Inr (Some v)"
       "uv_role v = \<lparr>rv_role = r, rv_permissions = ps\<rparr>"
    by blast
  have "hasPermission db userId resource action
          = Inr (\<exists>p \<in> set ps. p_resource p = resource_value resource
                             \<and> p_action p = action_value action)"
    using v s by (simp add: hasPermission_def list_ex_iff)
  also have "(\<exists>p \<in> set ps. p_resource p = resource_value resource
                             \<and> p_action p = action_value action)
     \<longleftrightarrow> (\<exists>rp \<in> set (rolePermissions db). rp_roleId rp = r_id r
                   \<and> (\<exists>p. find (\<lambda>p. p_id p = rp_permissionId rp) (permissions db) = Some p
                          \<and> p_resource p = resource_value resource
                          \<and> p_action p = action_value action))"
    unfolding include_permissions_Some_set [OF j] by blast
  finally have first: "hasPermission db userId resource action
           = Inr (\<exists>rp \<in> set (rolePermissions db). rp_roleId rp = r_id r
                   \<and> (\<exists>p. find (\<lambda>p. p_id p = rp_permissionId rp) (permissions db) = Some p
                          \<and> p_resource p = resource_value resource
                          \<and> p_action p = action_value action))" .
  show ?thesis
    using first hasPermission_assign_unrelated by blast
qed

text \<open>
  The fixture's employee may create leave and may not read payroll; after file reading
  is assigned to the employee role, payroll reading is still denied.
\<close>

theorem hasPermission_regular_role_witness:
  "hasPermission fx_db ''u1'' PAYROLL READ = Inr False
   \<and> fst (assignPermissionToRole fx_db ''r-emp'' ''p3'')
       = Inr \<lparr>rp_id = 2, rp_roleId = ''r-emp'', rp_permissionId = ''p3''\<rparr>
   \<and> hasPermission (snd (assignPermissionToRole fx_db ''r-emp'' ''p3'')) ''u1'' PAYROLL READ
       = Inr False"
proof -
  let ?u = "fx_users ! 1" and ?r = "fx_roles ! 2"
  let ?row = "\<lparr>rp_id = 2, rp_roleId = ''r-emp'', rp_permissionId = ''p3''\<rparr>"
  let ?db' = "fx_db\<lparr>rolePermissions := fx_rolePermissions @ [?row], nextId := 3\<rparr>"
  have u: "find (\<lambda>u. u_id u = ''u1'') (users fx_db) = Some ?u"
    by (simp add: fx_db_def fx_users_def)
  have r: "find (\<lambda>r. r_id r = u_roleId ?u) (roles fx_db) = Some ?r"
    by (simp add: fx_db_def fx_users_def fx_roles_def)
  have j: "include_permissions fx_db (r_id ?r) = Some [fx_permissions ! 1]"
    by (simp add: include_permissions_def fx_db_def fx_roles_def fx_rolePermissions_def
        fx_permissions_def)
  have s: "r_slug ?r \<noteq> ''super-admin''"
    by (simp add: fx_roles_def)
  have a: "assignPermissionToRole fx_db ''r-emp'' ''p3'' = (Inr ?row, ?db')"
    by (simp add: assignPermissionToRole_def fx_db_def fx_roles_def fx_rolePermissions_def
        fx_permissions_def Let_def)
  have q: "find (\<lambda>p. p_id p = ''p3'') (permissions fx_db) = Some (fx_permissions ! 2)"
    by (simp add: fx_db_def fx_permissions_def)
  have un: "(p_resource (fx_permissions ! 2), p_action (fx_permissions ! 2))
              \<noteq> (resource_value PAYROLL, action_value READ)"
    by (simp add: fx_permissions_def)
  note inst = hasPermission_regular_role [OF u r j s, of PAYROLL READ]
  have denied: "hasPermission fx_db ''u1'' PAYROLL READ = Inr False"
    using inst by (simp add: fx_db_def fx_roles_def fx_rolePermissions_def fx_permissions_def)
  have "hasPermission ?db' ''u1'' PAYROLL READ = hasPermission fx_db ''u1'' PAYROLL READ"
    using inst a q un by blast
  with denied a show ?thesis by simp
qed

section \<open>Role checks\<close>

text \<open>
  Claim C9. \<open>requireRole\<close> lets a request through exactly when it carries an
  authenticated user whose role slug is a member of the allowed slugs. The super admin
  has no exemption here: with a list that leaves \<open>super-admin\<close> out, that role is
  answered 403 Forbidden.
\<close>

theorem requireRole_membership_only:
  "(requireRole slugs req = Next
      \<longleftrightarrow> (\<exists>user. req_user req = Some user
                   \<and> r_slug (rv_role (uv_role user)) \<in> set (allowedRoles slugs)))
   \<and> (\<forall>user. req_user req = Some user
          \<and> r_slug (rv_role (uv_role user)) = ''super-admin''
          \<and> ''super-admin'' \<notin> set (allowedRoles slugs)
        \<longrightarrow> requireRole slugs req
              = Respond (ApiResponseUtil_forbidden
                  ''You don't have the required role to access this resource'')
            \<and> res_status (ApiResponseUtil_forbidden
                  ''You don't have the required role to access this resource'') = 403)"
  by (cases slugs)
     (auto simp: requireRole_def allowedRoles_def Let_def
         ApiResponseUtil_forbidden_def ApiResponseUtil_error_def split: option.splits)

theorem requireRole_membership_only_witness:
  "requireRole (Many [''hr-manager'', ''manager'']) fx_root_request
     = Respond (ApiResponseUtil_forbidden
         ''You don't have the required role to access this resource'')
   \<and> requireRole (One ''super-admin'') fx_root_request = Next"
proof -
  let ?user = "the (req_user fx_root_request)"
  have user: "req_user fx_root_request = Some ?user"
    and slug: "r_slug (rv_role (uv_role ?user)) = ''super-admin''"
    by (simp_all add: fx_root_request_def fx_roles_def)
  have out: "''super-admin'' \<notin> set (allowedRoles (Many [''hr-manager'', ''manager'']))"
    and inside: "r_slug (rv_role (uv_role ?user)) \<in> set (allowedRoles (One ''super-admin''))"
    by (simp_all add: allowedRoles_def fx_root_request_def fx_roles_def)
  note many = requireRole_membership_only [of "Many [''hr-manager'', ''manager'']" fx_root_request]
  note one = requireRole_membership_only [of "One ''super-admin''" fx_root_request]
  from many [THEN conjunct2, THEN spec, of ?user] user slug out
  have no: "requireRole (Many [''hr-manager'', ''manager'']) fx_root_request
     = Respond (ApiResponseUtil_forbidden
         ''You don't have the required role to access this resource'')"
    by (elim impE conjE) (intro conjI, assumption+)
  from one [THEN conjunct1] user inside
  have "requireRole (One ''super-admin'') fx_root_request = Next"
    by (elim iffE impE) (intro exI conjI, assumption+)
  with no show ?thesis by (intro conjI)
qed

section \<open>Refresh-token rotation\<close>

subsection \<open>Auxiliary facts\<close>

lemma find_SomeD: "find P xs = Some x \<Longrightarrow> P x \<and> x \<in> set xs"
  by (induction xs) (auto split: if_splits)


lemma revokeMany_rows:
  "refreshTokens (revokeMany db uid now)
     = map (\<lambda>t. if rt_userId t = uid \<and> \<not> rt_isRevoked t then revokeRow now t else t)
           (refreshTokens db)"
  by (simp add: revokeMany_def)

lemma revokeMany_all_revoked:
  assumes "t \<in> set (refreshTokens (revokeMany db uid now))" and "rt_userId t = uid"
  shows "rt_isRevoked t"
proof -
  from assms(1) obtain t0 where
    t: "t = (if rt_userId t0 = uid \<and> \<not> rt_isRevoked t0 then revokeRow now t0 else t0)"
    unfolding revokeMany_rows by (auto simp only: set_map image_iff)
  show ?thesis
  proof (cases "rt_userId t0 = uid \<and> \<not> rt_isRevoked t0")
    case True
    with t show ?thesis by (simp add: revokeRow_def)
  next
    case False
    with t assms(2) show ?thesis by simp
  qed
qed

lemma revokeMany_none_left:
  "filter (\<lambda>t. rt_userId t = uid \<and> \<not> rt_isRevoked t \<and> P t)
          (refreshTokens (revokeMany db uid now)) = []"
  unfolding filter_empty_conv using revokeMany_all_revoked by blast

lemma verifyRefreshToken_Inr:
  "verifyRefreshToken d tok now = Inr payload
     \<longleftrightarrow> (\<exists>exp. jwt_decode d tok (JWT_REFRESH_SECRET d) = Some (payload, exp) \<and> now < exp)"
  by (auto simp: verifyRefreshToken_def jwt_verify_def split: option.splits)

lemma verifyRefreshToken_Inl:
  "verifyRefreshToken d tok now = Inl e
     \<Longrightarrow> e = UnauthorizedError ''Invalid or expired refresh token''"
  by (auto simp: verifyRefreshToken_def split: option.splits)

lemma refresh_success:
  assumes "refreshAccessToken d db tok ua ip now salt = (Inr pair, db')"
  shows "\<exists>payload exp user db1.
           jwt_decode d tok (JWT_REFRESH_SECRET d) = Some (payload, exp) \<and> now < exp
         \<and> find (\<lambda>u. u_id u = jp_userId payload) (users db) = Some user
         \<and> u_id user = jp_userId payload \<and> u_isActive user
         \<and> generateTokenPair d db (u_id user) (u_email user) (u_roleId user) ua ip now salt
             = (pair, db1)
         \<and> db' = revokeMany db1 (u_id user) now"
proof (cases "verifyRefreshToken d tok now")
  case (Inl e)
  with assms show ?thesis by (simp add: refreshAccessToken_def)
next
  case (Inr payload)
  then obtain exp where dec: "jwt_decode d tok (JWT_REFRESH_SECRET d) = Some (payload, exp)"
    and live: "now < exp"
    by (auto simp: verifyRefreshToken_Inr)
  show ?thesis
  proof (cases "find (\<lambda>u. u_id u = jp_userId payload) (users db)")
    case None
    with assms Inr show ?thesis
      by (simp add: refreshAccessToken_def Let_def split: if_splits)
  next
    case (Some user)
    obtain pair1 db1 where gen:
      "generateTokenPair d db (u_id user) (u_email user) (u_roleId user) ua ip now salt
         = (pair1, db1)"
      by (cases "generateTokenPair d db (u_id user) (u_email user) (u_roleId user) ua ip now salt")
    from assms Inr Some gen have "u_isActive user" "pair1 = pair"
      "db' = revokeMany db1 (u_id user) now"
      by (simp_all add: refreshAccessToken_def Let_def split: if_splits)
    moreover from find_SomeD [OF Some] have "u_id user = jp_userId payload" by simp
    ultimately show ?thesis using dec live Some gen by blast
  qed
qed


lemma refresh_rejected_when_revoked:
  assumes "jwt_decode d tok (JWT_REFRESH_SECRET d) = Some (payload, exp)"
  shows "\<exists>m. refreshAccessToken d (revokeMany db1 (jp_userId payload) now) tok ua ip now' salt
            = (Inl (UnauthorizedError m), revokeMany db1 (jp_userId payload) now)"
proof (cases "now' < exp")
  case False
  with assms have "verifyRefreshToken d tok now'
      = Inl (UnauthorizedError ''Invalid or expired refresh token'')"
    by (simp add: verifyRefreshToken_def jwt_verify_def)
  then show ?thesis
    by (simp add: refreshAccessToken_def)
next
  case True
  with assms have v: "verifyRefreshToken d tok now' = Inr payload"
    by (simp add: verifyRefreshToken_def jwt_verify_def)
  have "filter (\<lambda>t. rt_userId t = jp_userId payload \<and> \<not> rt_isRevoked t \<and> now' < rt_expiresAt t)
          (refreshTokens (revokeMany db1 (jp_userId payload) now)) = []"
    by (rule revokeMany_none_left)
  with v show ?thesis
    by (simp add: refreshAccessToken_def)
qed



lemma generateTokenPair_result:
  assumes "generateTokenPair d db uid em rid ua ip now salt = (pair, db1)"
  shows "tp_refreshToken pair
           = jwt_sign d \<lparr>jp_userId = uid, jp_email = em, jp_roleId = rid\<rparr>
               (JWT_REFRESH_SECRET d) (REFRESH_TOKEN_EXPIRES_IN d) now"
    and "refreshTokens db1
           = refreshTokens db
             @ [\<lparr>rt_id = nextId db, rt_token = hashPassword d (tp_refreshToken pair) salt,
                 rt_userId = uid, rt_expiresAt = addDays d now (expiryDays d),
                 rt_isRevoked = False, rt_revokedAt = None, rt_userAgent = ua,
                 rt_ipAddress = ip\<rparr>]"
    and "users db1 = users db"
  using assms by (auto simp: generateTokenPair_def Let_def)







subsection \<open>The fixture, evaluated\<close>

lemmas fx_defs = fx_deps_def fx_sign_def fx_decode_def fx_hash_def fx_verify_def
  alice_payload_def fx_db_def fx_users_def fx_roles_def fx_permissions_def fx_rolePermissions_def

lemmas svc_defs = login_def findUnique_include_def include_role_def include_permissions_def
  verifyPassword_def hashPassword_def generateTokenPair_def refreshAccessToken_def
  verifyRefreshToken_def jwt_verify_def revokeMany_def revokeRow_def Let_def


lemma fx_refresh:
  "refreshAccessToken fx_deps fx_db1 ''RT10'' None None 20 0
     = (Inr \<lparr>tp_accessToken = ''AT'', tp_refreshToken = ''RT20''\<rparr>, fx_db2)"
  by (simp add: fx_defs svc_defs fx_db1_def fx_db2_def fx_alice_row_def)


subsection \<open>Failure leaves the store alone\<close>

text \<open>
  Claim C8. Whenever \<open>refreshAccessToken\<close> fails, the error is an
  \<open>UnauthorizedError\<close> and the store is the one the call started from: no ledger row
  is created and none changes its revoked flag or revocation time.
\<close>

theorem refresh_failure_keeps_store:
  assumes "refreshAccessToken d db tok ua ip now salt = (Inl e, db')"
  shows "db' = db \<and> (\<exists>m. e = UnauthorizedError m)"
proof (cases "verifyRefreshToken d tok now")
  case (Inl e')
  with assms verifyRefreshToken_Inl [OF Inl] show ?thesis
    by (auto simp: refreshAccessToken_def)
next
  case (Inr payload)
  show ?thesis
  proof (cases "find (\<lambda>u. u_id u = jp_userId payload) (users db)")
    case None
    with assms Inr show ?thesis
      by (auto simp: refreshAccessToken_def Let_def split: if_splits)
  next
    case (Some user)
    obtain pair1 db1 where gen:
      "generateTokenPair d db (u_id user) (u_email user) (u_roleId user) ua ip now salt
         = (pair1, db1)"
      by (cases "generateTokenPair d db (u_id user) (u_email user) (u_roleId user) ua ip now salt")
    from assms Inr Some gen show ?thesis
      by (auto simp: refreshAccessToken_def Let_def split: if_splits)
  qed
qed


text \<open>
  A forged token and a token whose rows are all revoked, on the store after the
  fixture's refresh.
\<close>

theorem refresh_failure_keeps_store_witness:
  "refreshAccessToken fx_deps fx_db2 ''forged'' None None 30 0
     = (Inl (UnauthorizedError ''Invalid or expired refresh token''), fx_db2)
   \<and> refreshAccessToken fx_deps fx_db2 ''RT10'' None None 30 0
     = (Inl (UnauthorizedError ''Invalid refresh token''), fx_db2)"
proof -
  have a: "refreshAccessToken fx_deps fx_db2 ''forged'' None None 30 0
     = (Inl (UnauthorizedError ''Invalid or expired refresh token''),
        snd (refreshAccessToken fx_deps fx_db2 ''forged'' None None 30 0))"
    by (simp add: fx_defs svc_defs)
  have b: "refreshAccessToken fx_deps fx_db2 ''RT10'' None None 30 0
     = (Inl (UnauthorizedError ''Invalid refresh token''),
        snd (refreshAccessToken fx_deps fx_db2 ''RT10'' None None 30 0))"
    by (simp add: fx_defs svc_defs fx_db2_def fx_db1_def fx_alice_row_def)
  from refresh_failure_keeps_store [OF a] refresh_failure_keeps_store [OF b] a b
  show ?thesis by simp
qed


subsection \<open>Replay of a rotated token\<close>




subsection \<open>The token a rotation issues\<close>

text \<open>
  Claim C1. A successful \<open>refreshAccessToken\<close> revokes the rows of the principal
  that were not yet revoked; the claim adds that the row persisted for the new token
  stays live, so that a refresh with the new token succeeds. The code creates the new
  row first and runs \<^verbatim>\<open>updateMany\<close> over the principal's live rows afterwards: the new
  row is revoked by the call that created it, and a refresh with the new token (whose
  claims name the same principal) fails with \<open>UnauthorizedError\<close>.
\<close>

theorem refresh_revokes_issued_token:
  assumes ok: "refreshAccessToken d db tok ua ip now salt = (Inr pair, db')"
    and dec: "jwt_decode d tok (JWT_REFRESH_SECRET d) = Some (payload, exp)"
  shows "refreshTokens db'
           = refreshTokens (revokeMany db (jp_userId payload) now)
             @ [revokeRow now
                  \<lparr>rt_id = nextId db, rt_token = hashPassword d (tp_refreshToken pair) salt,
                   rt_userId = jp_userId payload, rt_expiresAt = addDays d now (expiryDays d),
                   rt_isRevoked = False, rt_revokedAt = None, rt_userAgent = ua,
                   rt_ipAddress = ip\<rparr>]
       \<and> (\<forall>q exp'. jwt_decode d (tp_refreshToken pair) (JWT_REFRESH_SECRET d) = Some (q, exp')
                    \<and> jp_userId q = jp_userId payload
              \<longrightarrow> (\<forall>ua' ip' now' salt'. \<exists>m.
                     refreshAccessToken d db' (tp_refreshToken pair) ua' ip' now' salt'
                       = (Inl (UnauthorizedError m), db')))"
proof -
  from refresh_success [OF ok] dec obtain exp0 user db1 where
    "jwt_decode d tok (JWT_REFRESH_SECRET d) = Some (payload, exp0)"
    and "find (\<lambda>u. u_id u = jp_userId payload) (users db) = Some user"
    and uid: "u_id user = jp_userId payload"
    and gen: "generateTokenPair d db (u_id user) (u_email user) (u_roleId user) ua ip now salt
             = (pair, db1)"
    and db': "db' = revokeMany db1 (u_id user) now"
    by auto
  have rows: "refreshTokens db'
           = refreshTokens (revokeMany db (jp_userId payload) now)
             @ [revokeRow now
                  \<lparr>rt_id = nextId db, rt_token = hashPassword d (tp_refreshToken pair) salt,
                   rt_userId = jp_userId payload, rt_expiresAt = addDays d now (expiryDays d),
                   rt_isRevoked = False, rt_revokedAt = None, rt_userAgent = ua,
                   rt_ipAddress = ip\<rparr>]"
    unfolding db' revokeMany_rows generateTokenPair_result(2) [OF gen] uid by simp
  have dead: "\<exists>m. refreshAccessToken d db' (tp_refreshToken pair) ua' ip' now' salt'
                          = (Inl (UnauthorizedError m), db')"
    if "jwt_decode d (tp_refreshToken pair) (JWT_REFRESH_SECRET d) = Some (q, exp')"
      and "jp_userId q = jp_userId payload" for q exp' ua' ip' now' salt'
    using refresh_rejected_when_revoked [OF that(1), of db1 now ua' ip' now' salt'] that(2)
    unfolding db' uid by simp
  from rows dead show ?thesis by blast
qed


text \<open>
  The fixture's employee refreshes at time 20 with the token of her login: both rows of
  the ledger are revoked afterwards, and the token just returned is refused at time 30.
\<close>

theorem refresh_revokes_issued_token_witness:
  "refreshAccessToken fx_deps fx_db1 ''RT10'' None None 20 0
     = (Inr \<lparr>tp_accessToken = ''AT'', tp_refreshToken = ''RT20''\<rparr>, fx_db2)
   \<and> refreshTokens fx_db2 = [revokeRow 20 (fx_alice_row 2 ''RT10'' 10),
                              revokeRow 20 (fx_alice_row 3 ''RT20'' 20)]
   \<and> (\<exists>m. refreshAccessToken fx_deps fx_db2 ''RT20'' None None 30 0
             = (Inl (UnauthorizedError m), fx_db2))"
proof -
  have dec: "jwt_decode fx_deps ''RT10'' (JWT_REFRESH_SECRET fx_deps) = Some (alice_payload, 1010)"
    by (simp add: fx_deps_def fx_decode_def)
  have new: "jwt_decode fx_deps
               (tp_refreshToken \<lparr>tp_accessToken = ''AT'', tp_refreshToken = ''RT20''\<rparr>)
               (JWT_REFRESH_SECRET fx_deps) = Some (alice_payload, 1020)
             \<and> jp_userId alice_payload = jp_userId alice_payload"
    by (simp add: fx_deps_def fx_decode_def)
  from refresh_revokes_issued_token [OF fx_refresh dec] new
  have "\<exists>m. refreshAccessToken fx_deps fx_db2
               (tp_refreshToken \<lparr>tp_accessToken = ''AT'', tp_refreshToken = ''RT20''\<rparr>)
               None None 30 0 = (Inl (UnauthorizedError m), fx_db2)"
    by blast
  moreover have "refreshTokens fx_db2 = [revokeRow 20 (fx_alice_row 2 ''RT10'' 10),
                              revokeRow 20 (fx_alice_row 3 ''RT20'' 20)]"
    by (simp add: fx_db2_def fx_db1_def)
  ultimately show ?thesis using fx_refresh by simp
qed


section \<open>Login failures\<close>

lemma parse_body_Inr:
  "parse_body s1 s2 f1 f2 = Inr (a, b)
     \<longleftrightarrow> f1 = Some a \<and> f2 = Some b \<and> s1 a = [] \<and> s2 b = []"
  by (auto simp: parse_body_def zod_string_def Let_def split: option.splits list.splits)

lemma login_unknown_email:
  assumes "find (\<lambda>u. u_email u = email) (users db) = None"
  shows "login d db email password ua ip now salt
           = (Inl (UnauthorizedError ''Invalid credentials''), db)"
  using assms by (simp add: login_def findUnique_include_def)

lemma login_inactive:
  assumes "findUnique_include db (\<lambda>u. u_email u = email) = Inr (Some user)"
    and "\<not> uv_isActive user"
  shows "login d db email password ua ip now salt
           = (Inl (UnauthorizedError ''Account is deactivated''), db)"
  using assms by (simp add: login_def)

lemma login_wrong_password:
  assumes "findUnique_include db (\<lambda>u. u_email u = email) = Inr (Some user)"
    and "uv_isActive user" and "\<not> verifyPassword d (uv_password user) password"
  shows "login d db email password ua ip now salt
           = (Inl (UnauthorizedError ''Invalid credentials''), db)"
  using assms by (simp add: login_def)

lemma fx_lookup_bob:
  "\<exists>user. findUnique_include fx_db (\<lambda>u. u_email u = ''bob@example.com'') = Inr (Some user)
      \<and> \<not> uv_isActive user"
  by (simp add: fx_defs findUnique_include_def include_role_def include_permissions_def)

lemma fx_lookup_alice:
  "\<exists>user. findUnique_include fx_db (\<lambda>u. u_email u = ''alice@example.com'') = Inr (Some user)
      \<and> uv_isActive user \<and> \<not> verifyPassword fx_deps (uv_password user) ''guess''"
  by (simp add: fx_defs findUnique_include_def include_role_def include_permissions_def
      verifyPassword_def)

text \<open>
  Claim C4, as the code has it. A login with a well-formed body fails with
  \<open>UnauthorizedError\<close>, answered 401 with the store unchanged, in each of the three
  cases. An unknown email and a password that does not verify give the same response,
  with the message \<open>Invalid credentials\<close>; an inactive account is answered with the
  message \<open>Account is deactivated\<close>, whatever the password.
\<close>

theorem login_failures:
  assumes body: "emailSchema d email = []" "password \<noteq> []"
  shows "(find (\<lambda>u. u_email u = email) (users db) = None
           \<longrightarrow> AuthController_login d db (Some email) (Some password) ua ip now salt
               = (ApiResponseUtil_unauthorized ''Invalid credentials'', db))
       \<and> (\<forall>user. findUnique_include db (\<lambda>u. u_email u = email) = Inr (Some user)
              \<and> uv_isActive user \<and> \<not> verifyPassword d (uv_password user) password
           \<longrightarrow> AuthController_login d db (Some email) (Some password) ua ip now salt
               = (ApiResponseUtil_unauthorized ''Invalid credentials'', db))
       \<and> (\<forall>user. findUnique_include db (\<lambda>u. u_email u = email) = Inr (Some user)
              \<and> \<not> uv_isActive user
           \<longrightarrow> AuthController_login d db (Some email) (Some password) ua ip now salt
               = (ApiResponseUtil_unauthorized ''Account is deactivated'', db))
       \<and> res_status (ApiResponseUtil_unauthorized ''Invalid credentials'') = 401
       \<and> res_status (ApiResponseUtil_unauthorized ''Account is deactivated'') = 401"
proof -
  have p: "parse_body (emailSchema d) (min1 ''Password is required'') (Some email) (Some password)
             = Inr (email, password)"
    using body by (simp add: parse_body_Inr min1_def)
  have resp: "error_response (UnauthorizedError m) = ApiResponseUtil_unauthorized m" for m
    by (simp add: error_response_def ApiResponseUtil_unauthorized_def)
  show ?thesis
    using login_unknown_email [of email db d password ua ip now salt]
      login_inactive [of db email _ d password ua ip now salt]
      login_wrong_password [of db email _ d password ua ip now salt]
    by (auto simp: AuthController_login_def p resp ApiResponseUtil_unauthorized_def
        ApiResponseUtil_error_def)
qed


theorem login_failures_witness:
  "AuthController_login fx_deps fx_db (Some ''nobody@example.com'') (Some ''guess'') None None 10 0
     = (ApiResponseUtil_unauthorized ''Invalid credentials'', fx_db)
   \<and> AuthController_login fx_deps fx_db (Some ''alice@example.com'') (Some ''guess'') None None 10 0
     = (ApiResponseUtil_unauthorized ''Invalid credentials'', fx_db)
   \<and> AuthController_login fx_deps fx_db (Some ''bob@example.com'') (Some ''guess'') None None 10 0
     = (ApiResponseUtil_unauthorized ''Account is deactivated'', fx_db)"
proof -
  have ok: "emailSchema fx_deps ''nobody@example.com'' = []"
    "emailSchema fx_deps ''alice@example.com'' = []"
    "emailSchema fx_deps ''bob@example.com'' = []" "''guess'' \<noteq> []"
    by (simp_all add: fx_deps_def)
  have none: "find (\<lambda>u. u_email u = ''nobody@example.com'') (users fx_db) = None"
    by (simp add: fx_db_def fx_users_def)
  note unknown = login_failures [OF ok(1) ok(4), of fx_db None None 10 0, THEN conjunct1]
  note wrong = login_failures [OF ok(2) ok(4), of fx_db None None 10 0,
      THEN conjunct2, THEN conjunct1]
  note inactive = login_failures [OF ok(3) ok(4), of fx_db None None 10 0,
      THEN conjunct2, THEN conjunct2, THEN conjunct1]
  from unknown none
  have a: "AuthController_login fx_deps fx_db (Some ''nobody@example.com'') (Some ''guess'')
             None None 10 0 = (ApiResponseUtil_unauthorized ''Invalid credentials'', fx_db)"
    by (rule mp)
  from fx_lookup_alice wrong
  have b: "AuthController_login fx_deps fx_db (Some ''alice@example.com'') (Some ''guess'')
             None None 10 0 = (ApiResponseUtil_unauthorized ''Invalid credentials'', fx_db)"
    by blast
  from fx_lookup_bob inactive
  have c: "AuthController_login fx_deps fx_db (Some ''bob@example.com'') (Some ''guess'')
             None None 10 0 = (ApiResponseUtil_unauthorized ''Account is deactivated'', fx_db)"
    by blast
  from a b c show ?thesis by (intro conjI)
qed

text \<open>
  The claim says the three cases cannot be told apart. On the fixture the response for
  the inactive account and the response for an unknown email differ in their message.
\<close>

theorem login_inactive_distinguishable:
  "fst (AuthController_login fx_deps fx_db (Some ''bob@example.com'') (Some ''guess'')
          None None 10 0)
     = ApiResponseUtil_unauthorized ''Account is deactivated''
   \<and> fst (AuthController_login fx_deps fx_db (Some ''nobody@example.com'') (Some ''guess'')
          None None 10 0)
     = ApiResponseUtil_unauthorized ''Invalid credentials''
   \<and> res_message (ApiResponseUtil_unauthorized ''Account is deactivated'')
       \<noteq> res_message (ApiResponseUtil_unauthorized ''Invalid credentials'')"
  by (simp add: AuthController_login_def parse_body_def zod_string_def min1_def
      login_def findUnique_include_def include_role_def include_permissions_def fx_defs
      error_response_def ApiResponseUtil_unauthorized_def ApiResponseUtil_error_def)

section \<open>Password change\<close>

lemma getUserWithPermissions_no_password:
  "getUserWithPermissions db userId = Inr user \<Longrightarrow> uv_password user = None"
  by (auto simp: getUserWithPermissions_def split: sum.splits option.splits)

lemma changePassword_store:
  "snd (AuthController_changePassword d db req c n now salt) = db"
proof (cases "parse_body (min1 ''Current password is required'') (passwordSchema d) c n")
  case (Inl issues)
  then show ?thesis by (simp add: AuthController_changePassword_def)
next
  case (Inr ab)
  obtain a b where ab: "ab = (a, b)" by (cases ab)
  show ?thesis
  proof (cases "req_userId req")
    case None
    with Inr ab show ?thesis by (simp add: AuthController_changePassword_def)
  next
    case (Some userId)
    show ?thesis
    proof (cases "getUserWithPermissions db userId")
      case (Inl e)
      with Inr ab Some show ?thesis by (simp add: AuthController_changePassword_def)
    next
      case user: (Inr user)
      from getUserWithPermissions_no_password [OF user]
      have "\<not> verifyPassword d (uv_password user) a" by (simp add: verifyPassword_def)
      with Inr ab Some user show ?thesis by (simp add: AuthController_changePassword_def)
    qed
  qed
qed

text \<open>
  Claim C5. The claim has \<open>changePassword\<close> store the new hash and revoke the
  principal's refresh tokens when the current password is right. The controller takes
  the user from \<open>getUserWithPermissions\<close>, which has removed the password, and verifies
  the current password against the missing property: for a stored user and a well-formed
  body the answer is always 400 \<open>Current password is incorrect\<close>, and no call changes
  the store.
\<close>

theorem changePassword_rejects_every_password:
  assumes "currentPassword \<noteq> []" and "passwordSchema d newPassword = []"
    and "req_userId req = Some userId" and "getUserWithPermissions db userId = Inr user"
  shows "AuthController_changePassword d db req (Some currentPassword) (Some newPassword) now salt
           = (ApiResponseUtil_error ''Current password is incorrect'' None 400, db)
       \<and> (\<forall>req' c n now' salt'. snd (AuthController_changePassword d db req' c n now' salt') = db)"
proof -
  have p: "parse_body (min1 ''Current password is required'') (passwordSchema d)
             (Some currentPassword) (Some newPassword) = Inr (currentPassword, newPassword)"
    using assms(1,2) by (simp add: parse_body_Inr min1_def)
  from getUserWithPermissions_no_password [OF assms(4)]
  have "\<not> verifyPassword d (uv_password user) currentPassword"
    by (simp add: verifyPassword_def)
  with p assms(3,4) changePassword_store show ?thesis
    by (simp add: AuthController_changePassword_def)
qed


text \<open>
  The fixture's employee gives her right password, with a live session in the ledger.
\<close>

theorem changePassword_rejects_every_password_witness:
  "verifyPassword fx_deps (Some (u_password (fx_users ! 1))) ''wonderland''
   \<and> AuthController_changePassword fx_deps fx_db1 \<lparr>req_user = None, req_userId = Some ''u1''\<rparr>
       (Some ''wonderland'') (Some ''N3w-passw0rd'') 20 0
     = (ApiResponseUtil_error ''Current password is incorrect'' None 400, fx_db1)"
proof -
  have right: "verifyPassword fx_deps (Some (u_password (fx_users ! 1))) ''wonderland''"
    by (simp add: verifyPassword_def fx_defs)
  have a: "''wonderland'' \<noteq> []" "passwordSchema fx_deps ''N3w-passw0rd'' = []"
    "req_userId \<lparr>req_user = None, req_userId = Some ''u1''\<rparr> = Some ''u1''"
    by (simp_all add: fx_deps_def)
  have "\<exists>user. getUserWithPermissions fx_db1 ''u1'' = Inr user"
    by (simp add: getUserWithPermissions_def findUnique_include_def include_role_def
        include_permissions_def fx_db1_def fx_defs)
  then obtain user where u: "getUserWithPermissions fx_db1 ''u1'' = Inr user" ..
  from changePassword_rejects_every_password [OF a u, of 20 0] right
  show ?thesis by simp
qed


end
